theory Spec2Isabelle
  imports Complex_Main "HOL-Library.Sublist"
begin

section \<open>Strings and paths\<close>

text \<open>
  Go strings are byte sequences; they are modelled as \<^typ>\<open>string\<close> (a list of
  8-bit characters). The functions of this section are the ones the program calls from
  the packages \<^verbatim>\<open>strings\<close> and \<^verbatim>\<open>path/filepath\<close> (Unix separator), written after
  their documented behaviour.
\<close>

type_synonym bytes = string

abbreviation Separator :: char where
  "Separator \<equiv> CHR ''/''"

definition HasPrefix :: "string \<Rightarrow> string \<Rightarrow> bool" where
  "HasPrefix s pre = prefix pre s"

definition HasSuffix :: "string \<Rightarrow> string \<Rightarrow> bool" where
  "HasSuffix s suf = suffix suf s"

definition TrimPrefix :: "string \<Rightarrow> string \<Rightarrow> string" where
  "TrimPrefix s pre = (if HasPrefix s pre then drop (length pre) s else s)"

text \<open>\<^verbatim>\<open>strings.Contains(s, "/")\<close> and \<^verbatim>\<open>strings.Index(s, "/")\<close>: the program only
  searches for the one-byte string \<^verbatim>\<open>"/"\<close>, so the needle is a character. The index
  \<^verbatim>\<open>-1\<close> of Go is \<^term>\<open>None\<close>.\<close>

definition Contains :: "string \<Rightarrow> char \<Rightarrow> bool" where
  "Contains s c = (c \<in> set s)"

definition Index :: "string \<Rightarrow> char \<Rightarrow> nat option" where
  "Index s c = (if c \<in> set s then Some (length (takeWhile (\<lambda>x. x \<noteq> c) s)) else None)"

text \<open>\<^verbatim>\<open>filepath.Base\<close>: the last element of the path, after trailing separators
  are dropped; \<^verbatim>\<open>"."\<close> for the empty path and \<^verbatim>\<open>"/"\<close> for a path of separators.\<close>

definition Base :: "string \<Rightarrow> string" where
  "Base path =
     (if path = [] then ''.''
      else let p1 = rev (dropWhile (\<lambda>c. c = Separator) (rev path));
               p2 = rev (takeWhile (\<lambda>c. c \<noteq> Separator) (rev p1))
           in if p2 = [] then ''/'' else p2)"

text \<open>\<^verbatim>\<open>filepath.Clean\<close>: the path is cut at its separators, empty and \<^verbatim>\<open>.\<close>
  elements are dropped, a \<^verbatim>\<open>..\<close> element removes the element before it (at the root it
  is dropped, at the start of a relative path it stays), and the empty result is
  \<^verbatim>\<open>"."\<close>. The stack of \<^term>\<open>cleanStep\<close> has its top first.\<close>

fun splitSep :: "string \<Rightarrow> string list" where
  "splitSep [] = [[]]"
| "splitSep (c # cs) =
     (if c = Separator then [] # splitSep cs
      else (case splitSep cs of [] \<Rightarrow> [[c]] | x # xs \<Rightarrow> (c # x) # xs))"

fun joinSep :: "string list \<Rightarrow> string" where
  "joinSep [] = []"
| "joinSep [x] = x"
| "joinSep (x # y # ys) = x @ ''/'' @ joinSep (y # ys)"

definition cleanStep :: "bool \<Rightarrow> string list \<Rightarrow> string \<Rightarrow> string list" where
  "cleanStep rooted st e =
     (if e = ''..''
      then (case st of
              [] \<Rightarrow> if rooted then [] else [''..'']
            | t # ts \<Rightarrow> if t = ''..'' then ''..'' # st else ts)
      else e # st)"

definition Clean :: "string \<Rightarrow> string" where
  "Clean path =
     (if path = [] then ''.''
      else let rooted = (hd path = Separator);
               elems = filter (\<lambda>e. e \<noteq> [] \<and> e \<noteq> ''.'') (splitSep path);
               body = joinSep (rev (foldl (cleanStep rooted) [] elems))
           in if rooted then Separator # body
              else if body = [] then ''.'' else body)"

text \<open>\<^verbatim>\<open>filepath.Join(a, b)\<close>: the elements from the first non-empty one on are joined
  with separators and cleaned; the result is empty when both are.\<close>

definition Join :: "string \<Rightarrow> string \<Rightarrow> string" where
  "Join a b =
     (if a \<noteq> [] then Clean (a @ ''/'' @ b)
      else if b \<noteq> [] then Clean b
      else [])"

section \<open>Errors, file information and open files\<close>

text \<open>Go error values. \<^term>\<open>EOF\<close> is \<^verbatim>\<open>io.EOF\<close>, \<^term>\<open>ErrNotExist\<close> is
  \<^verbatim>\<open>fs.ErrNotExist\<close> (also what the operating system reports for a missing path),
  \<^term>\<open>Errorf\<close> carries the message of \<^verbatim>\<open>fmt.Errorf\<close>; the others are failures of the
  operating system, of the archive readers or of the remote session.\<close>

datatype error =
    EOF
  | ErrNotExist
  | ErrIsDir
  | ErrNotDir
  | ErrInvalid
  | ErrClosed
  | ErrUnexpectedEOF
  | ErrFormat
  | Errorf string
  | ErrTransport string

text \<open>\<^verbatim>\<open>fs.FileInfo\<close>, with the three fields the program reads.\<close>

record FileInfo =
  fi_Name :: string
  fi_Size :: int
  fi_IsDir :: bool

text \<open>
  \<^verbatim>\<open>fs.File\<close>: an open file answers \<^verbatim>\<open>Stat()\<close> and a sequence of \<^verbatim>\<open>Read(buf)\<close>
  calls. \<^term>\<open>f_Read f k\<close> is the result \<^verbatim>\<open>(buf[:n], err)\<close> of call number \<open>k\<close>; the
  sequence need not end. Nothing ties the size that \<^verbatim>\<open>Stat\<close> reports to the bytes
  that \<^verbatim>\<open>Read\<close> delivers: the interface does not, and files of a remote or special
  file system report sizes that their content does not have.
\<close>

record File =
  f_Stat :: "error + FileInfo"
  f_Read :: "nat \<Rightarrow> bytes \<times> error option"

text \<open>The stream of a byte sequence read with the 4096-byte buffer of the program:
  full chunks, then no bytes and the final error for ever.\<close>

definition chunkReads :: "bytes \<Rightarrow> error \<Rightarrow> nat \<Rightarrow> bytes \<times> error option" where
  "chunkReads content fin k =
     (let bs = take 4096 (drop (4096 * k) content)
      in (bs, if bs = [] then Some fin else None))"

section \<open>The archive backends\<close>

subsection \<open>tar\<close>

text \<open>\<^verbatim>\<open>tar.Header\<close>: name, type flag (\<^verbatim>\<open>tar.TypeDir\<close> is the byte \<^verbatim>\<open>'5'\<close>), size, and
  whether the file-type bits of its mode are those of a directory.\<close>

record tar_Header =
  h_Name :: string
  h_Typeflag :: char
  h_Size :: int
  h_ModeIsDir :: bool

abbreviation TypeDir :: char where
  "TypeDir \<equiv> CHR ''5''"

text \<open>\<^verbatim>\<open>hdr.FileInfo()\<close>: the library reports a directory when the type flag or the
  mode bits say so, and names the entry by the base of its name.\<close>

definition tar_FileInfo :: "tar_Header \<Rightarrow> FileInfo" where
  "tar_FileInfo hdr =
     \<lparr>fi_Name = Base (h_Name hdr), fi_Size = h_Size hdr,
      fi_IsDir = (h_Typeflag hdr = TypeDir \<or> h_ModeIsDir hdr)\<rparr>"

text \<open>
  What reading a container file from its start yields: the failure to open or to
  decompress it, or the members that \<^verbatim>\<open>tr.Next()\<close> returns, each with its data,
  followed by the end of the archive (\<^term>\<open>None\<close>) or by a read error.
\<close>

type_synonym tar_scan = "error + ((tar_Header \<times> bytes) list \<times> error option)"

text \<open>The index \<^verbatim>\<open>entries map[string]*tar.Header\<close> is an association list: its
  order stands for the order in which one \<^verbatim>\<open>range\<close> loop meets the keys, which Go
  leaves open. \<^term>\<open>t_disk\<close> is what the container file holds while it is mounted:
  \<^verbatim>\<open>Open\<close> reads it again on every call.\<close>

record tarVFS =
  t_filename :: string
  t_isGz :: bool
  t_entries :: "(string \<times> tar_Header) list"
  t_disk :: tar_scan

text \<open>\<^verbatim>\<open>entries[hdr.Name] = hdr\<close>: a later header replaces an earlier one of the same
  name.\<close>

definition map_store :: "('k \<times> 'v) list \<Rightarrow> 'k \<Rightarrow> 'v \<Rightarrow> ('k \<times> 'v) list" where
  "map_store m k v = filter (\<lambda>kv. fst kv \<noteq> k) m @ [(k, v)]"

definition newTarVFS :: "string \<Rightarrow> tar_scan \<Rightarrow> error + tarVFS" where
  "newTarVFS filename disk =
     (case disk of
        Inl err \<Rightarrow> Inl err
      | Inr (members, Some err) \<Rightarrow> Inl err
      | Inr (members, None) \<Rightarrow>
          Inr \<lparr>t_filename = filename, t_isGz = HasSuffix filename ''.gz'',
               t_entries = foldl (\<lambda>entries (hdr, data). map_store entries (h_Name hdr) hdr)
                                 [] members,
               t_disk = disk\<rparr>)"

record tarDirEntry =
  te_name :: string
  te_hdr :: tar_Header

definition tarDirEntry_IsDir :: "tarDirEntry \<Rightarrow> bool" where
  "tarDirEntry_IsDir e = (h_Typeflag (te_hdr e) = TypeDir)"

text \<open>The loop of \<^verbatim>\<open>tarVFS.ReadDir\<close> over the index, with the slice \<^verbatim>\<open>entries\<close> it
  appends to.\<close>

fun tar_ReadDir_loop ::
  "string \<Rightarrow> (string \<times> tar_Header) list \<Rightarrow> tarDirEntry list \<Rightarrow> tarDirEntry list" where
  "tar_ReadDir_loop pfx [] entries = entries"
| "tar_ReadDir_loop pfx ((name, hdr) # rest) entries =
     (if HasPrefix name pfx
      then (let suffix = drop (length pfx) name
            in if Contains suffix Separator
               then tar_ReadDir_loop pfx rest entries
               else tar_ReadDir_loop pfx rest
                      (entries @ [\<lparr>te_name = Base name, te_hdr = hdr\<rparr>]))
      else tar_ReadDir_loop pfx rest entries)"

definition tarVFS_ReadDir :: "tarVFS \<Rightarrow> string \<Rightarrow> error + tarDirEntry list" where
  "tarVFS_ReadDir t dir =
     (let pfx = TrimPrefix dir (t_filename t @ ''/'') @ ''/''
      in Inr (tar_ReadDir_loop pfx (t_entries t) []))"

definition tarVFS_Stat :: "tarVFS \<Rightarrow> string \<Rightarrow> error + FileInfo" where
  "tarVFS_Stat t path =
     (case map_of (t_entries t) path of
        None \<Rightarrow> Inl ErrNotExist
      | Some hdr \<Rightarrow> Inr (tar_FileInfo hdr))"

text \<open>\<^verbatim>\<open>Chdir\<close> returns the error and, as the method has a pointer receiver, the
  receiver after the call.\<close>

definition tarVFS_Chdir :: "tarVFS \<Rightarrow> string \<Rightarrow> tarVFS \<times> error option" where
  "tarVFS_Chdir t dir = (t, None)"

definition tarVFS_Getwd :: "tarVFS \<Rightarrow> error + string" where
  "tarVFS_Getwd t = Inr (t_filename t)"

text \<open>\<^verbatim>\<open>tarVFS.Open\<close>: the container is read again from its start; the first member
  of that name is served through \<^verbatim>\<open>io.LimitReader(tr, hdr.Size)\<close>, and its \<^verbatim>\<open>Stat\<close> is a
  \<^verbatim>\<open>tarFileInfo\<close> with the header's size that is never a directory.\<close>

fun tar_Open_loop :: "(tar_Header \<times> bytes) list \<Rightarrow> error option \<Rightarrow> string \<Rightarrow> error + File" where
  "tar_Open_loop [] None path = Inl ErrNotExist"
| "tar_Open_loop [] (Some err) path = Inl err"
| "tar_Open_loop ((hdr, data) # rest) fin path =
     (if h_Name hdr = path
      then Inr \<lparr>f_Stat = Inr \<lparr>fi_Name = path, fi_Size = h_Size hdr, fi_IsDir = False\<rparr>,
               f_Read = chunkReads (take (nat (h_Size hdr)) data)
                          (if int (length data) < h_Size hdr then ErrUnexpectedEOF else EOF)\<rparr>
      else tar_Open_loop rest fin path)"

definition tarVFS_Open :: "tarVFS \<Rightarrow> string \<Rightarrow> error + File" where
  "tarVFS_Open t path =
     (case t_disk t of
        Inl err \<Rightarrow> Inl err
      | Inr (members, fin) \<Rightarrow> tar_Open_loop members fin path)"

subsection \<open>zip\<close>

text \<open>\<^verbatim>\<open>zip.File\<close>: name, uncompressed size, whether its external attributes mark a
  directory, and what \<^verbatim>\<open>f.Open()\<close> and reading it to the end yield.\<close>

record zip_File =
  z_Name :: string
  z_UncompressedSize64 :: nat
  z_AttrIsDir :: bool
  z_data :: "error + bytes"

text \<open>\<^verbatim>\<open>f.FileInfo()\<close>: the library adds the directory bit to the mode of a name that
  ends in a separator.\<close>

definition zip_FileInfo :: "zip_File \<Rightarrow> FileInfo" where
  "zip_FileInfo f =
     \<lparr>fi_Name = Base (z_Name f), fi_Size = int (z_UncompressedSize64 f),
      fi_IsDir = (z_AttrIsDir f \<or> (z_Name f \<noteq> [] \<and> last (z_Name f) = Separator))\<rparr>"

text \<open>\<^verbatim>\<open>reader.File\<close> is a slice, in the order of the container's directory.\<close>

record zipVFS =
  zv_filename :: string
  zv_File :: "zip_File list"

text \<open>\<^verbatim>\<open>newZipVFS\<close>, given what \<^verbatim>\<open>os.Open\<close>, \<^verbatim>\<open>Stat\<close> and \<^verbatim>\<open>zip.NewReader\<close> make of the
  file.\<close>

definition newZipVFS :: "string \<Rightarrow> error + zip_File list \<Rightarrow> error + zipVFS" where
  "newZipVFS filename disk =
     (case disk of
        Inl err \<Rightarrow> Inl err
      | Inr files \<Rightarrow> Inr \<lparr>zv_filename = filename, zv_File = files\<rparr>)"

record zipDirEntry =
  ze_f :: zip_File
  ze_isDir :: bool

definition zipDirEntry_Name :: "zipDirEntry \<Rightarrow> string" where
  "zipDirEntry_Name e = z_Name (ze_f e)"

definition zipDirEntry_IsDir :: "zipDirEntry \<Rightarrow> bool" where
  "zipDirEntry_IsDir e = ze_isDir e"

text \<open>\<^verbatim>\<open>&zip.File{FileHeader: zip.FileHeader{Name: dirName}}\<close>: every other field
  has its zero value, and the file has no reader behind it.\<close>

definition synthDir :: "string \<Rightarrow> zip_File" where
  "synthDir dirName =
     \<lparr>z_Name = dirName, z_UncompressedSize64 = 0, z_AttrIsDir = False, z_data = Inl ErrClosed\<rparr>"

text \<open>The loop of \<^verbatim>\<open>zipVFS.ReadDir\<close>, with the map \<^verbatim>\<open>seenDirs\<close> (a missing key
  reads \<^verbatim>\<open>false\<close>) and the slice \<^verbatim>\<open>entries\<close>.\<close>

fun zip_ReadDir_loop ::
  "string \<Rightarrow> zip_File list \<Rightarrow> (string \<Rightarrow> bool) \<Rightarrow> zipDirEntry list \<Rightarrow> zipDirEntry list" where
  "zip_ReadDir_loop pfx [] seenDirs entries = entries"
| "zip_ReadDir_loop pfx (f # rest) seenDirs entries =
     (let name = z_Name f in
      if HasPrefix name pfx
      then (let suffix = drop (length pfx) name in
            if suffix = [] then zip_ReadDir_loop pfx rest seenDirs entries
            else (case Index suffix Separator of
                    Some idx \<Rightarrow>
                      (let dirName = take idx suffix in
                       if seenDirs dirName then zip_ReadDir_loop pfx rest seenDirs entries
                       else zip_ReadDir_loop pfx rest (seenDirs(dirName := True))
                              (entries @ [\<lparr>ze_f = synthDir dirName, ze_isDir = True\<rparr>]))
                  | None \<Rightarrow>
                      zip_ReadDir_loop pfx rest seenDirs
                        (entries @ [\<lparr>ze_f = f, ze_isDir = False\<rparr>])))
      else zip_ReadDir_loop pfx rest seenDirs entries)"

definition zipVFS_ReadDir :: "zipVFS \<Rightarrow> string \<Rightarrow> error + zipDirEntry list" where
  "zipVFS_ReadDir z dir =
     (let pfx = TrimPrefix dir (zv_filename z @ ''/'') @ ''/''
      in Inr (zip_ReadDir_loop pfx (zv_File z) (\<lambda>_. False) []))"

text \<open>\<^verbatim>\<open>zipVFS.Stat\<close> and \<^verbatim>\<open>zipVFS.Open\<close> take the first file of that name.\<close>

fun zipVFS_Stat_loop :: "zip_File list \<Rightarrow> string \<Rightarrow> error + FileInfo" where
  "zipVFS_Stat_loop [] path = Inl ErrNotExist"
| "zipVFS_Stat_loop (f # rest) path =
     (if z_Name f = path then Inr (zip_FileInfo f) else zipVFS_Stat_loop rest path)"

definition zipVFS_Stat :: "zipVFS \<Rightarrow> string \<Rightarrow> error + FileInfo" where
  "zipVFS_Stat z path = zipVFS_Stat_loop (zv_File z) path"

fun zipVFS_Open_loop :: "zip_File list \<Rightarrow> string \<Rightarrow> error + File" where
  "zipVFS_Open_loop [] path = Inl ErrNotExist"
| "zipVFS_Open_loop (f # rest) path =
     (if z_Name f = path
      then (case z_data f of
              Inl err \<Rightarrow> Inl err
            | Inr content \<Rightarrow>
                Inr \<lparr>f_Stat = Inr \<lparr>fi_Name = path, fi_Size = int (z_UncompressedSize64 f),
                                  fi_IsDir = False\<rparr>,
                     f_Read = chunkReads (take (z_UncompressedSize64 f) content)
                                (if length content = z_UncompressedSize64 f then EOF
                                 else if length content < z_UncompressedSize64 f
                                 then ErrUnexpectedEOF else ErrFormat)\<rparr>)
      else zipVFS_Open_loop rest path)"

definition zipVFS_Open :: "zipVFS \<Rightarrow> string \<Rightarrow> error + File" where
  "zipVFS_Open z path = zipVFS_Open_loop (zv_File z) path"

definition zipVFS_Chdir :: "zipVFS \<Rightarrow> string \<Rightarrow> zipVFS \<times> error option" where
  "zipVFS_Chdir z dir = (z, None)"

definition zipVFS_Getwd :: "zipVFS \<Rightarrow> error + string" where
  "zipVFS_Getwd z = Inr (zv_filename z)"


section \<open>The local file system\<close>

text \<open>
  The operating system is not part of the program. Its file system is modelled as a map
  from cleaned absolute paths to nodes, with the process-wide working directory beside
  it; of the ways in which its calls can fail, the model has the missing path and the
  wrong kind of node. An open local file delivers the content the file had when it was
  opened.
\<close>

datatype node = RegFile bytes | Directory

record world =
  nodes :: "string \<Rightarrow> node option"
  cwd :: string

definition os_Open :: "world \<Rightarrow> string \<Rightarrow> error + File" where
  "os_Open w path =
     (case nodes w path of
        None \<Rightarrow> Inl ErrNotExist
      | Some (RegFile content) \<Rightarrow>
          Inr \<lparr>f_Stat = Inr \<lparr>fi_Name = Base path, fi_Size = int (length content),
                            fi_IsDir = False\<rparr>,
               f_Read = chunkReads content EOF\<rparr>
      | Some Directory \<Rightarrow>
          Inr \<lparr>f_Stat = Inr \<lparr>fi_Name = Base path, fi_Size = 4096, fi_IsDir = True\<rparr>,
               f_Read = (\<lambda>k. ([], Some ErrIsDir))\<rparr>)"

definition os_Stat :: "world \<Rightarrow> string \<Rightarrow> error + FileInfo" where
  "os_Stat w path =
     (case nodes w path of
        None \<Rightarrow> Inl ErrNotExist
      | Some (RegFile content) \<Rightarrow>
          Inr \<lparr>fi_Name = Base path, fi_Size = int (length content), fi_IsDir = False\<rparr>
      | Some Directory \<Rightarrow>
          Inr \<lparr>fi_Name = Base path, fi_Size = 4096, fi_IsDir = True\<rparr>)"

text \<open>\<^verbatim>\<open>os.Create\<close> truncates or creates the file; \<^verbatim>\<open>d.Write\<close> appends to what the
  descriptor has written so far.\<close>

definition os_Create :: "world \<Rightarrow> string \<Rightarrow> error + world" where
  "os_Create w path =
     (case nodes w path of
        Some Directory \<Rightarrow> Inl ErrIsDir
      | _ \<Rightarrow> Inr (w\<lparr>nodes := (nodes w)(path \<mapsto> RegFile [])\<rparr>))"

definition os_Write :: "world \<Rightarrow> string \<Rightarrow> bytes \<Rightarrow> error + world" where
  "os_Write w path bs =
     (case nodes w path of
        Some (RegFile content) \<Rightarrow> Inr (w\<lparr>nodes := (nodes w)(path \<mapsto> RegFile (content @ bs))\<rparr>)
      | _ \<Rightarrow> Inl ErrClosed)"

text \<open>\<^verbatim>\<open>os.Rename\<close> moves the node and what lies below it, replacing the target.
  Renaming a path to itself changes nothing, and a path cannot be renamed to a path
  below itself.\<close>

definition os_Rename :: "world \<Rightarrow> string \<Rightarrow> string \<Rightarrow> error + world" where
  "os_Rename w oldpath newpath =
     (if nodes w oldpath = None then Inl ErrNotExist
      else if oldpath = newpath then Inr w
      else if HasPrefix newpath (oldpath @ ''/'') then Inl ErrInvalid
      else Inr (w\<lparr>nodes := (\<lambda>q.
             if q = oldpath \<or> HasPrefix q (oldpath @ ''/'') then None
             else if q = newpath then nodes w oldpath
             else if HasPrefix q (newpath @ ''/'')
               then nodes w (oldpath @ drop (length newpath) q)
             else nodes w q)\<rparr>))"

text \<open>\<^verbatim>\<open>os.RemoveAll\<close> removes the path and what lies below it, and reports no
  error for a path that does not exist.\<close>

definition os_RemoveAll :: "world \<Rightarrow> string \<Rightarrow> error option \<times> world" where
  "os_RemoveAll w path =
     (None, w\<lparr>nodes := (\<lambda>q. if q = path \<or> HasPrefix q (path @ ''/'') then None
                              else nodes w q)\<rparr>)"

definition os_Chdir :: "world \<Rightarrow> string \<Rightarrow> error option \<times> world" where
  "os_Chdir w dir =
     (case nodes w dir of
        None \<Rightarrow> (Some ErrNotExist, w)
      | Some (RegFile content) \<Rightarrow> (Some ErrNotDir, w)
      | Some Directory \<Rightarrow> (None, w\<lparr>cwd := dir\<rparr>))"

definition os_Getwd :: "world \<Rightarrow> error + string" where
  "os_Getwd w = Inr (cwd w)"

section \<open>The interface \<open>vfsHandler\<close>\<close>

text \<open>The remote session: what the server answers to the calls of the client
  library.\<close>

record sftp_Client =
  c_Open :: "string \<Rightarrow> error + File"
  c_Stat :: "string \<Rightarrow> error + FileInfo"
  c_Getwd :: "error + string"

text \<open>A value of the interface is one of the four implementations; a method call
  dispatches on it. \<^verbatim>\<open>Chdir\<close> returns the handler and the process state after the
  call.\<close>

datatype vfsHandler =
    LocalVFS
  | SftpVFS sftp_Client
  | TarVFS tarVFS
  | ZipVFS zipVFS

definition vfs_Open :: "vfsHandler \<Rightarrow> world \<Rightarrow> string \<Rightarrow> error + File" where
  "vfs_Open v w file =
     (case v of
        LocalVFS \<Rightarrow> os_Open w file
      | SftpVFS c \<Rightarrow> c_Open c file
      | TarVFS t \<Rightarrow> tarVFS_Open t file
      | ZipVFS z \<Rightarrow> zipVFS_Open z file)"

definition vfs_Stat :: "vfsHandler \<Rightarrow> world \<Rightarrow> string \<Rightarrow> error + FileInfo" where
  "vfs_Stat v w file =
     (case v of
        LocalVFS \<Rightarrow> os_Stat w file
      | SftpVFS c \<Rightarrow> c_Stat c file
      | TarVFS t \<Rightarrow> tarVFS_Stat t file
      | ZipVFS z \<Rightarrow> zipVFS_Stat z file)"

definition vfs_Chdir :: "vfsHandler \<Rightarrow> world \<Rightarrow> string \<Rightarrow> error option \<times> vfsHandler \<times> world" where
  "vfs_Chdir v w dir =
     (case v of
        LocalVFS \<Rightarrow> (case os_Chdir w dir of (err, w') \<Rightarrow> (err, LocalVFS, w'))
      | SftpVFS c \<Rightarrow> (case c_Stat c dir of Inl err \<Rightarrow> (Some err, v, w) | Inr info \<Rightarrow> (None, v, w))
      | TarVFS t \<Rightarrow> (case tarVFS_Chdir t dir of (t', err) \<Rightarrow> (err, TarVFS t', w))
      | ZipVFS z \<Rightarrow> (case zipVFS_Chdir z dir of (z', err) \<Rightarrow> (err, ZipVFS z', w)))"

definition vfs_Getwd :: "vfsHandler \<Rightarrow> world \<Rightarrow> error + string" where
  "vfs_Getwd v w =
     (case v of
        LocalVFS \<Rightarrow> os_Getwd w
      | SftpVFS c \<Rightarrow> c_Getwd c
      | TarVFS t \<Rightarrow> tarVFS_Getwd t
      | ZipVFS z \<Rightarrow> zipVFS_Getwd z)"

section \<open>Progress values\<close>

text \<open>
  A \<^verbatim>\<open>float64\<close> is modelled by the exact rational it stands for, or by an infinity or
  NaN: rounding is left out, division by zero is not (Go divides floating-point numbers
  by zero without a panic).
\<close>

datatype float64 = Fin rat | PosInf | NegInf | NaN

definition f_of_int :: "int \<Rightarrow> float64" where
  "f_of_int n = Fin (of_int n)"

fun f_add :: "float64 \<Rightarrow> float64 \<Rightarrow> float64" where
  "f_add (Fin x) (Fin y) = Fin (x + y)"
| "f_add NaN b = NaN"
| "f_add a NaN = NaN"
| "f_add PosInf NegInf = NaN"
| "f_add NegInf PosInf = NaN"
| "f_add PosInf b = PosInf"
| "f_add NegInf b = NegInf"
| "f_add a PosInf = PosInf"
| "f_add a NegInf = NegInf"

fun f_div :: "float64 \<Rightarrow> float64 \<Rightarrow> float64" where
  "f_div (Fin x) (Fin y) =
     (if y \<noteq> 0 then Fin (x / y)
      else if 0 < x then PosInf else if x < 0 then NegInf else NaN)"
| "f_div NaN b = NaN"
| "f_div a NaN = NaN"
| "f_div (Fin x) b = Fin 0"
| "f_div PosInf (Fin y) = (if 0 \<le> y then PosInf else NegInf)"
| "f_div NegInf (Fin y) = (if 0 \<le> y then NegInf else PosInf)"
| "f_div a b = NaN"

fun f_le :: "float64 \<Rightarrow> float64 \<Rightarrow> bool" where
  "f_le (Fin x) (Fin y) = (x \<le> y)"
| "f_le NaN b = False"
| "f_le a NaN = False"
| "f_le NegInf b = True"
| "f_le a PosInf = True"
| "f_le a b = False"

definition in_unit :: "float64 \<Rightarrow> bool" where
  "in_unit x = (f_le (Fin 0) x \<and> f_le x (Fin 1))"

section \<open>The model and the transfer engine\<close>

text \<open>\<^verbatim>\<open>ProgressMsg{Percent}\<close> and \<^verbatim>\<open>CommandResult{Output, Err}\<close>.\<close>

datatype msg = ProgressMsg float64 | CommandResult string "error option"

text \<open>
  Of \<^verbatim>\<open>panel\<close> and \<^verbatim>\<open>Model\<close>, the fields that the engine reads or writes.
  \<^verbatim>\<open>selectedFiles map[string]bool\<close> is an association list, in the order in which the
  \<^verbatim>\<open>range\<close> loop of the batch meets its keys. \<^term>\<open>sent\<close> holds what has been sent on
  \<^verbatim>\<open>ProgressChan\<close> and \<^verbatim>\<open>ResultChan\<close>, in the order of the sends.
\<close>

record panel =
  currentDir :: string
  selectedFiles :: "(string \<times> bool) list"
  vfs :: vfsHandler

record Model =
  panels :: "panel list"
  activePanel :: nat
  sent :: "msg list"

text \<open>\<^verbatim>\<open>for f := range p.selectedFiles { if p.selectedFiles[f] { sources = append(sources, f) } }\<close>\<close>

definition selected :: "(string \<times> bool) list \<Rightarrow> string list" where
  "selected sel = filter (\<lambda>f. map_of sel f = Some True) (map fst sel)"

text \<open>The copy loop of \<^verbatim>\<open>copyFileVFS\<close>; \<open>k\<close> counts the calls of \<^verbatim>\<open>Read\<close>, \<open>cb\<close>
  collects the arguments of \<^verbatim>\<open>progressCb\<close>. The loop ends only when a \<^verbatim>\<open>Read\<close>
  delivers no byte or fails, or a write fails: a run that never returns is \<^term>\<open>None\<close>.\<close>

partial_function (option) copy_loop ::
  "(nat \<Rightarrow> bytes \<times> error option) \<Rightarrow> string \<Rightarrow> int \<Rightarrow> nat \<Rightarrow> int \<Rightarrow> world \<Rightarrow> float64 list
     \<Rightarrow> (error option \<times> world \<times> float64 list) option" where
  "copy_loop rd dst totalSize k written w cb =
     (case rd k of (buf, err) \<Rightarrow>
        if err \<noteq> None \<and> err \<noteq> Some EOF then Some (err, w, cb)
        else if length buf = 0 then Some (None, w, cb)
        else (case os_Write w dst buf of
                Inl werr \<Rightarrow> Some (Some werr, w, cb)
              | Inr w' \<Rightarrow>
                  copy_loop rd dst totalSize (Suc k) (written + int (length buf)) w'
                    (cb @ [f_div (f_of_int (written + int (length buf))) (f_of_int totalSize)])))"

definition copyFileVFS ::
  "vfsHandler \<Rightarrow> vfsHandler \<Rightarrow> world \<Rightarrow> string \<Rightarrow> string
     \<Rightarrow> (error option \<times> world \<times> float64 list) option" where
  "copyFileVFS srcVFS dstVFS w src dst =
     (case vfs_Open srcVFS w src of
        Inl err \<Rightarrow> Some (Some err, w, [])
      | Inr s \<Rightarrow>
          (case f_Stat s of
             Inl err \<Rightarrow> Some (Some err, w, [])
           | Inr stat \<Rightarrow>
               if fi_IsDir stat then Some (Some (Errorf ''dir copy not implemented''), w, [])
               else (case os_Create w dst of
                       Inl err \<Rightarrow> Some (Some err, w, [])
                     | Inr w' \<Rightarrow> copy_loop (f_Read s) dst (fi_Size stat) 0 0 w' [])))"

text \<open>
  The function that \<^verbatim>\<open>copyWithProgress\<close> hands to \<^verbatim>\<open>eg.Go\<close> for source number \<open>i\<close>:
  it returns the error of \<^verbatim>\<open>copyFileVFS\<close> and sends
  \<^verbatim>\<open>(float64(i) + percent) / float64(total)\<close> for every call of the callback.
\<close>

definition overall :: "nat \<Rightarrow> nat \<Rightarrow> float64 \<Rightarrow> float64" where
  "overall i ntotal percent = f_div (f_add (f_of_int (int i)) percent) (f_of_int (int ntotal))"

definition copy_job ::
  "vfsHandler \<Rightarrow> vfsHandler \<Rightarrow> string \<Rightarrow> nat \<Rightarrow> nat \<Rightarrow> string \<Rightarrow> world
     \<Rightarrow> (error option \<times> world \<times> msg list) option" where
  "copy_job srcVFS dstVFS dst ntotal i src w =
     (case copyFileVFS srcVFS dstVFS w src (Join dst (Base src)) of
        None \<Rightarrow> None
      | Some (err, w', percents) \<Rightarrow>
          Some (err, w', map (\<lambda>percent. ProgressMsg (overall i ntotal percent)) percents))"

text \<open>
  The group runs its functions concurrently. A run of the group is modelled by the
  order in which the jobs run, each job taken as one step: \<^term>\<open>run_jobs\<close> runs the jobs
  of a list in its order and returns their errors in that order, the file system and
  the messages sent. \<^verbatim>\<open>eg.Wait()\<close> returns when all have returned, with the first error
  that one of them returned.
\<close>

fun run_jobs ::
  "(nat \<Rightarrow> string \<Rightarrow> world \<Rightarrow> (error option \<times> world \<times> msg list) option)
     \<Rightarrow> (nat \<times> string) list \<Rightarrow> world \<Rightarrow> (error option list \<times> world \<times> msg list) option" where
  "run_jobs job [] w = Some ([], w, [])"
| "run_jobs job ((i, src) # rest) w =
     (case job i src w of
        None \<Rightarrow> None
      | Some (err, w1, out1) \<Rightarrow>
          (case run_jobs job rest w1 of
             None \<Rightarrow> None
           | Some (errs, w2, out2) \<Rightarrow> Some (err # errs, w2, out1 @ out2)))"

fun eg_Wait :: "error option list \<Rightarrow> error option" where
  "eg_Wait [] = None"
| "eg_Wait (None # errs) = eg_Wait errs"
| "eg_Wait (Some err # errs) = Some err"

text \<open>The jobs of the sources in the order \<open>sched\<close> of their numbers; a run of the
  group is a \<open>sched\<close> that holds every number below the number of sources once.\<close>

definition scheduled :: "string list \<Rightarrow> nat list \<Rightarrow> (nat \<times> string) list" where
  "scheduled sources sched = map (\<lambda>i. (i, sources ! i)) (filter (\<lambda>i. i < length sources) sched)"


text \<open>The sources and the target directory of a batch: the selection, or else the
  pair given with the command.\<close>

definition batch_sources :: "panel \<Rightarrow> string \<Rightarrow> string list \<Rightarrow> string list \<times> string" where
  "batch_sources p dst args =
     (let sources = selected (selectedFiles p)
      in if length sources = 0 \<and> length args > 2
         then ([Join (currentDir p) (args ! 1)], args ! 2)
         else (sources, dst))"

text \<open>
  \<^verbatim>\<open>copyWithProgress\<close>. \<^verbatim>\<open>p := m.panels[m.activePanel]\<close> copies the panel, so the
  assignment \<^verbatim>\<open>p.selectedFiles = make(map[string]bool)\<close> changes the copy \<open>p\<close> and not
  the panel of the model.
\<close>

definition copyWithProgress ::
  "nat list \<Rightarrow> Model \<Rightarrow> world \<Rightarrow> string list \<Rightarrow> (Model \<times> world) option" where
  "copyWithProgress sched m w args =
     (let p = panels m ! activePanel m;
          (sources, dst) = batch_sources p (currentDir (panels m ! (1 - activePanel m))) args;
          ntotal = length sources
      in case run_jobs (copy_job (vfs p) (vfs (panels m ! (1 - activePanel m))) dst ntotal)
                (scheduled sources sched) w of
           None \<Rightarrow> None
         | Some (errs, w', out) \<Rightarrow>
             (let err = eg_Wait errs;
                  p = p\<lparr>selectedFiles := []\<rparr>;
                  out = out @ [ProgressMsg (Fin 1)]
              in case err of
                   Some e \<Rightarrow> Some (m\<lparr>sent := sent m @ out @ [CommandResult [] (Some e)]\<rparr>, w')
                 | None \<Rightarrow>
                     Some (m\<lparr>sent := sent m @ out @ [CommandResult ''Copy completed'' None]\<rparr>, w')))"

text \<open>The loop of \<^verbatim>\<open>moveWithProgress\<close>: it returns the error that ended it, if any.\<close>

fun move_loop ::
  "string \<Rightarrow> nat \<Rightarrow> (nat \<times> string) list \<Rightarrow> world \<Rightarrow> msg list \<Rightarrow> error option \<times> world \<times> msg list" where
  "move_loop dst ntotal [] w out = (None, w, out)"
| "move_loop dst ntotal ((i, src) # rest) w out =
     (let newPath = Join dst (Base src)
      in case os_Rename w src newPath of
           Inl err \<Rightarrow> (Some err, w, out @ [CommandResult [] (Some err)])
         | Inr w' \<Rightarrow>
             move_loop dst ntotal rest w'
               (out @ [ProgressMsg (f_div (f_of_int (int i + 1)) (f_of_int (int ntotal)))]))"

definition moveWithProgress :: "Model \<Rightarrow> world \<Rightarrow> string list \<Rightarrow> Model \<times> world" where
  "moveWithProgress m w args =
     (let p = panels m ! activePanel m;
          (sources, dst) = batch_sources p (currentDir (panels m ! (1 - activePanel m))) args;
          ntotal = length sources
      in case move_loop dst ntotal (enumerate 0 sources) w [] of
           (Some err, w', out) \<Rightarrow> (m\<lparr>sent := sent m @ out\<rparr>, w')
         | (None, w', out) \<Rightarrow>
             (let p = p\<lparr>selectedFiles := []\<rparr>
              in (m\<lparr>sent := sent m @ out @ [ProgressMsg (Fin 1),
                                             CommandResult ''Move completed'' None]\<rparr>, w')))"

fun delete_loop :: "nat \<Rightarrow> (nat \<times> string) list \<Rightarrow> world \<Rightarrow> msg list \<Rightarrow> world \<times> msg list" where
  "delete_loop ntotal [] w out = (w, out)"
| "delete_loop ntotal ((i, target) # rest) w out =
     (case os_RemoveAll w target of
        (err, w') \<Rightarrow>
          delete_loop ntotal rest w'
            (out @ [ProgressMsg (f_div (f_of_int (int i + 1)) (f_of_int (int ntotal)))]))"

definition deleteWithProgress :: "Model \<Rightarrow> world \<Rightarrow> Model \<times> world" where
  "deleteWithProgress m w =
     (let p = panels m ! activePanel m;
          targets = selected (selectedFiles p);
          ntotal = length targets
      in case delete_loop ntotal (enumerate 0 targets) w [] of
           (w', out) \<Rightarrow>
             (let p = p\<lparr>selectedFiles := []\<rparr>
              in (m\<lparr>sent := sent m @ out @ [CommandResult ''Delete completed'' None]\<rparr>, w')))"


definition copyToOtherPanel :: "nat list \<Rightarrow> Model \<Rightarrow> world \<Rightarrow> (Model \<times> world) option" where
  "copyToOtherPanel sched m w =
     copyWithProgress sched m w [''cp'', ''.'', currentDir (panels m ! (1 - activePanel m))]"


section \<open>Notions used in the statements\<close>

subsection \<open>Directory listings\<close>

text \<open>The prefix that both \<^verbatim>\<open>ReadDir\<close> methods compute from the container's path and
  the directory asked for, the remainder of a name behind a prefix, and the first
  segment of a remainder.\<close>

definition listPrefix :: "string \<Rightarrow> string \<Rightarrow> string" where
  "listPrefix filename dir = TrimPrefix dir (filename @ ''/'') @ ''/''"

definition remainder :: "string \<Rightarrow> string \<Rightarrow> string" where
  "remainder pfx name = drop (length pfx) name"

definition firstSegment :: "string \<Rightarrow> string" where
  "firstSegment s = takeWhile (\<lambda>c. c \<noteq> Separator) s"





text \<open>What one step of the zip loop appends and how it changes \<^verbatim>\<open>seenDirs\<close>.\<close>

definition zip_emit :: "string \<Rightarrow> zip_File \<Rightarrow> (string \<Rightarrow> bool) \<Rightarrow> zipDirEntry list" where
  "zip_emit pfx f seen =
     (let r = remainder pfx (z_Name f) in
      if \<not> HasPrefix (z_Name f) pfx \<or> r = [] then []
      else if Contains r Separator
        then (if seen (firstSegment r) then []
              else [\<lparr>ze_f = synthDir (firstSegment r), ze_isDir = True\<rparr>])
        else [\<lparr>ze_f = f, ze_isDir = False\<rparr>])"

definition zip_mark :: "string \<Rightarrow> zip_File \<Rightarrow> (string \<Rightarrow> bool) \<Rightarrow> (string \<Rightarrow> bool)" where
  "zip_mark pfx f seen =
     (let r = remainder pfx (z_Name f) in
      if HasPrefix (z_Name f) pfx \<and> Contains r Separator
      then seen(firstSegment r := True) else seen)"


subsection \<open>Example containers\<close>

definition ex_member :: "string \<Rightarrow> zip_File" where
  "ex_member name = \<lparr>z_Name = name, z_UncompressedSize64 = 3, z_AttrIsDir = False,
                     z_data = Inr ''abc''\<rparr>"

definition ex_zip :: "string list \<Rightarrow> zipVFS" where
  "ex_zip names = \<lparr>zv_filename = ''/home/u/a.zip'', zv_File = map ex_member names\<rparr>"

definition ex_header :: "string \<Rightarrow> char \<Rightarrow> tar_Header" where
  "ex_header name flag = \<lparr>h_Name = name, h_Typeflag = flag, h_Size = 3, h_ModeIsDir = False\<rparr>"

definition ex_tar_disk :: "(string \<times> char) list \<Rightarrow> tar_scan" where
  "ex_tar_disk names = Inr (map (\<lambda>(name, flag). (ex_header name flag, ''abc'')) names, None)"

definition ex_tar :: "(string \<times> char) list \<Rightarrow> tarVFS" where
  "ex_tar names =
     \<lparr>t_filename = ''/home/u/a.tar'', t_isGz = False,
      t_entries = map (\<lambda>(name, flag). (name, ex_header name flag)) names,
      t_disk = ex_tar_disk names\<rparr>"

subsection \<open>Example file systems\<close>

definition world_of :: "(string \<times> node) list \<Rightarrow> world" where
  "world_of files = \<lparr>nodes = map_of files, cwd = ''/home/u''\<rparr>"

subsection \<open>Example models\<close>

text \<open>Two panels: the active one with a selection and a backend, the other on the
  local directory \<^verbatim>\<open>/home/u/dst\<close>.\<close>

definition ex_model :: "string \<Rightarrow> (string \<times> bool) list \<Rightarrow> vfsHandler \<Rightarrow> Model" where
  "ex_model dir sel v =
     \<lparr>panels = [\<lparr>currentDir = dir, selectedFiles = sel, vfs = v\<rparr>,
                \<lparr>currentDir = ''/home/u/dst'', selectedFiles = [], vfs = LocalVFS\<rparr>],
      activePanel = 0, sent = []\<rparr>"

text \<open>The selection of the active panel, and the model with another backend in its
  active panel.\<close>

definition selection :: "Model \<Rightarrow> (string \<times> bool) list" where
  "selection m = selectedFiles (panels m ! activePanel m)"

definition with_vfs :: "Model \<Rightarrow> vfsHandler \<Rightarrow> Model" where
  "with_vfs m v =
     m\<lparr>panels := (panels m)[activePanel m := (panels m ! activePanel m)\<lparr>vfs := v\<rparr>]\<rparr>"

text \<open>The results among a list of messages.\<close>

fun is_result :: "msg \<Rightarrow> bool" where
  "is_result (CommandResult output err) = True"
| "is_result (ProgressMsg percent) = False"

definition results :: "msg list \<Rightarrow> msg list" where
  "results ms = filter is_result ms"

subsection \<open>Streams and example backends\<close>

text \<open>A \<^verbatim>\<open>Read\<close> result that ends the copy loop, and a stream that has one.\<close>

definition ends_loop :: "bytes \<times> error option \<Rightarrow> bool" where
  "ends_loop r = ((snd r \<noteq> None \<and> snd r \<noteq> Some EOF) \<or> fst r = [])"

definition stream_ends :: "File \<Rightarrow> bool" where
  "stream_ends s = (\<exists>k. ends_loop (f_Read s k))"

text \<open>A remote session with one file, \<^verbatim>\<open>/proc/version\<close>: as files of that kind do,
  it reports the size 0 and delivers its five bytes when read.\<close>

definition ex_remote_file :: File where
  "ex_remote_file =
     \<lparr>f_Stat = Inr \<lparr>fi_Name = ''version'', fi_Size = 0, fi_IsDir = False\<rparr>,
      f_Read = chunkReads ''Linux'' EOF\<rparr>"

definition ex_client :: sftp_Client where
  "ex_client =
     \<lparr>c_Open = (\<lambda>path. if path = ''/proc/version'' then Inr ex_remote_file else Inl ErrNotExist),
      c_Stat = (\<lambda>path. if path = ''/proc/version''
                         then Inr \<lparr>fi_Name = ''version'', fi_Size = 0, fi_IsDir = False\<rparr>
                         else Inl ErrNotExist),
      c_Getwd = Inr ''/''\<rparr>"






text \<open>The path that a copy or move batch with the target directory \<open>dst\<close> gives to a
  source.\<close>

definition target :: "string \<Rightarrow> string \<Rightarrow> string" where
  "target dst src = Join dst (Base src)"

section \<open>Properties of the archive backends\<close>


lemma tar_ReadDir_loop_none:
  "\<forall>kv \<in> set es. \<not> HasPrefix (fst kv) pfx \<Longrightarrow> tar_ReadDir_loop pfx es acc = acc"
  by (induction es arbitrary: acc) auto

lemma Index_Some:
  "Index s c = Some i \<Longrightarrow> take i s = takeWhile (\<lambda>x. x \<noteq> c) s \<and> c \<in> set s"
  using takeWhile_eq_take [of "\<lambda>x. x \<noteq> c" s]
  by (auto simp: Index_def split: if_splits)

lemma Index_None: "Index s c = None \<longleftrightarrow> c \<notin> set s"
  by (auto simp: Index_def)

lemma synthDir_eq [simp]: "synthDir d = synthDir d' \<longleftrightarrow> d = d'"
  by (auto simp: synthDir_def)

text \<open>One round of the zip loop, in terms of what it appends and marks.\<close>

lemma zip_loop_Cons:
  "zip_ReadDir_loop pfx (f # fs) seen acc =
     zip_ReadDir_loop pfx fs (zip_mark pfx f seen) (acc @ zip_emit pfx f seen)"
proof (cases "Index (remainder pfx (z_Name f)) Separator")
  case None
  then have "\<not> Contains (remainder pfx (z_Name f)) Separator"
    by (simp add: Index_None Contains_def)
  with None show ?thesis
    by (simp add: zip_emit_def zip_mark_def remainder_def Let_def)
next
  case (Some i)
  from Index_Some [OF Some]
  have "take i (remainder pfx (z_Name f)) = firstSegment (remainder pfx (z_Name f))"
    and c: "Contains (remainder pfx (z_Name f)) Separator"
    by (simp_all add: firstSegment_def Contains_def)
  moreover from c have "remainder pfx (z_Name f) \<noteq> []"
    by (auto simp: Contains_def)
  ultimately show ?thesis using Some
    by (auto simp: zip_emit_def zip_mark_def remainder_def Let_def fun_upd_idem)
qed

declare zip_ReadDir_loop.simps(2) [simp del]

lemma zip_loop_none:
  "\<forall>f \<in> set fs. \<not> HasPrefix (z_Name f) pfx \<Longrightarrow> zip_ReadDir_loop pfx fs seen acc = acc"
  by (induction fs arbitrary: seen acc) (auto simp: zip_loop_Cons zip_emit_def zip_mark_def)




lemmas ex_defs = ex_zip_def ex_member_def ex_tar_def ex_header_def ex_tar_disk_def

lemmas list_defs = HasPrefix_def TrimPrefix_def Contains_def Index_def remainder_def
  firstSegment_def listPrefix_def

text \<open>
  C7. On a tar or zip backend \<^verbatim>\<open>Chdir\<close> returns no error for any argument and leaves
  what \<^verbatim>\<open>Getwd\<close> returns unchanged; \<^verbatim>\<open>Getwd\<close> returns the path of the container file,
  which is the path the backend was mounted with. The same holds through the
  interface, where the call also leaves the process state as it was.
\<close>

theorem archive_Chdir_noop:
  "snd (tarVFS_Chdir t dir) = None
   \<and> tarVFS_Getwd (fst (tarVFS_Chdir t dir)) = tarVFS_Getwd t
   \<and> tarVFS_Getwd t = Inr (t_filename t)
   \<and> snd (zipVFS_Chdir z dir) = None
   \<and> zipVFS_Getwd (fst (zipVFS_Chdir z dir)) = zipVFS_Getwd z
   \<and> zipVFS_Getwd z = Inr (zv_filename z)
   \<and> vfs_Chdir (TarVFS t) w dir = (None, TarVFS t, w)
   \<and> vfs_Chdir (ZipVFS z) w dir = (None, ZipVFS z, w)
   \<and> (newTarVFS tanchor tdisk = Inr t \<longrightarrow> vfs_Getwd (TarVFS t) w = Inr tanchor)
   \<and> (newZipVFS zanchor zdisk = Inr z \<longrightarrow> vfs_Getwd (ZipVFS z) w = Inr zanchor)"
  by (auto simp: tarVFS_Chdir_def tarVFS_Getwd_def zipVFS_Chdir_def zipVFS_Getwd_def
      vfs_Chdir_def vfs_Getwd_def newTarVFS_def newZipVFS_def
      split: sum.splits option.splits prod.splits)

theorem archive_Chdir_noop_witness:
  "newTarVFS ''/home/u/a.tar'' (ex_tar_disk [(''docs/a.txt'', CHR ''0'')])
     = Inr (ex_tar [(''docs/a.txt'', CHR ''0'')])
   \<and> newZipVFS ''/home/u/a.zip'' (Inr [ex_member ''docs/a.txt'']) = Inr (ex_zip [''docs/a.txt''])
   \<and> vfs_Chdir (TarVFS (ex_tar [(''docs/a.txt'', CHR ''0'')])) (world_of []) ''/home/u/a.tar/docs''
       = (None, TarVFS (ex_tar [(''docs/a.txt'', CHR ''0'')]), world_of [])
   \<and> vfs_Getwd (TarVFS (ex_tar [(''docs/a.txt'', CHR ''0'')])) (world_of []) = Inr ''/home/u/a.tar''
   \<and> vfs_Chdir (ZipVFS (ex_zip [''docs/a.txt''])) (world_of []) ''/nowhere''
       = (None, ZipVFS (ex_zip [''docs/a.txt'']), world_of [])
   \<and> vfs_Getwd (ZipVFS (ex_zip [''docs/a.txt''])) (world_of []) = Inr ''/home/u/a.zip''"
proof -
  have t: "newTarVFS ''/home/u/a.tar'' (ex_tar_disk [(''docs/a.txt'', CHR ''0'')])
             = Inr (ex_tar [(''docs/a.txt'', CHR ''0'')])"
    by (simp add: newTarVFS_def ex_defs map_store_def HasSuffix_def suffix_def)
  have z: "newZipVFS ''/home/u/a.zip'' (Inr [ex_member ''docs/a.txt'']) = Inr (ex_zip [''docs/a.txt''])"
    by (simp add: newZipVFS_def ex_defs)
  note inst = archive_Chdir_noop [where t = "ex_tar [(''docs/a.txt'', CHR ''0'')]"
      and z = "ex_zip [''docs/a.txt'']" and w = "world_of []" and tanchor = "''/home/u/a.tar''"
      and tdisk = "ex_tar_disk [(''docs/a.txt'', CHR ''0'')]" and zanchor = "''/home/u/a.zip''"
      and zdisk = "Inr [ex_member ''docs/a.txt'']"]
  show ?thesis
    using t z inst [where dir = "''/home/u/a.tar/docs''"] inst [where dir = "''/nowhere''"]
    by simp
qed

lemma listPrefix_anchor: "listPrefix anchor anchor = anchor @ ''/''"
  by (simp add: listPrefix_def TrimPrefix_def HasPrefix_def prefix_def)

lemma newTarVFS_filename: "newTarVFS filename disk = Inr t \<Longrightarrow> t_filename t = filename"
  by (auto simp: newTarVFS_def split: sum.splits option.splits prod.splits)

lemma newZipVFS_filename: "newZipVFS filename disk = Inr z \<Longrightarrow> zv_filename z = filename"
  by (auto simp: newZipVFS_def split: sum.splits)

lemma tarVFS_ReadDir_eq:
  "tarVFS_ReadDir t dir = Inr (tar_ReadDir_loop (listPrefix (t_filename t) dir) (t_entries t) [])"
  by (simp add: tarVFS_ReadDir_def listPrefix_def)

lemma zipVFS_ReadDir_eq:
  "zipVFS_ReadDir z dir =
     Inr (zip_ReadDir_loop (listPrefix (zv_filename z) dir) (zv_File z) (\<lambda>_. False) [])"
  by (simp add: zipVFS_ReadDir_def listPrefix_def)

text \<open>
  C10. \<^verbatim>\<open>mountArchive\<close> builds the backend with the full path of the container and
  makes that path the current directory of the panel, which \<^verbatim>\<open>refreshPanel\<close> then
  lists. A backend built with the path \<open>anchor\<close> lists the anchor itself with the
  prefix \<open>anchor + "/"\<close>: when no name of the index starts with it, as is the case
  for the relative names of an archive, \<^verbatim>\<open>ReadDir(anchor)\<close> returns the empty list.
\<close>

theorem ReadDir_anchor_empty:
  "(newTarVFS tanchor tdisk = Inr t
      \<and> (\<forall>name \<in> fst ` set (t_entries t). \<not> HasPrefix name (tanchor @ ''/''))
    \<longrightarrow> tarVFS_ReadDir t tanchor = Inr [])
   \<and> (newZipVFS zanchor zdisk = Inr z
      \<and> (\<forall>f \<in> set (zv_File z). \<not> HasPrefix (z_Name f) (zanchor @ ''/''))
    \<longrightarrow> zipVFS_ReadDir z zanchor = Inr [])"
proof (intro conjI impI)
  assume a: "newTarVFS tanchor tdisk = Inr t
      \<and> (\<forall>name \<in> fst ` set (t_entries t). \<not> HasPrefix name (tanchor @ ''/''))"
  then have "t_filename t = tanchor" by (auto dest: newTarVFS_filename)
  moreover from a have "\<forall>kv \<in> set (t_entries t). \<not> HasPrefix (fst kv) (tanchor @ ''/'')"
    by auto
  ultimately show "tarVFS_ReadDir t tanchor = Inr []"
    by (simp add: tarVFS_ReadDir_eq listPrefix_anchor tar_ReadDir_loop_none)
next
  assume a: "newZipVFS zanchor zdisk = Inr z
      \<and> (\<forall>f \<in> set (zv_File z). \<not> HasPrefix (z_Name f) (zanchor @ ''/''))"
  then have "zv_filename z = zanchor" by (auto dest: newZipVFS_filename)
  with a show "zipVFS_ReadDir z zanchor = Inr []"
    by (simp add: zipVFS_ReadDir_eq listPrefix_anchor zip_loop_none)
qed

theorem ReadDir_anchor_empty_witness:
  "newTarVFS ''/home/u/a.tar'' (ex_tar_disk [(''docs/a.txt'', CHR ''0''), (''top.txt'', CHR ''0'')])
     = Inr (ex_tar [(''docs/a.txt'', CHR ''0''), (''top.txt'', CHR ''0'')])
   \<and> tarVFS_ReadDir (ex_tar [(''docs/a.txt'', CHR ''0''), (''top.txt'', CHR ''0'')]) ''/home/u/a.tar''
       = Inr []
   \<and> newZipVFS ''/home/u/a.zip'' (Inr [ex_member ''docs/a.txt'', ex_member ''top.txt''])
       = Inr (ex_zip [''docs/a.txt'', ''top.txt''])
   \<and> zipVFS_ReadDir (ex_zip [''docs/a.txt'', ''top.txt'']) ''/home/u/a.zip'' = Inr []"
proof -
  have t: "newTarVFS ''/home/u/a.tar''
             (ex_tar_disk [(''docs/a.txt'', CHR ''0''), (''top.txt'', CHR ''0'')])
           = Inr (ex_tar [(''docs/a.txt'', CHR ''0''), (''top.txt'', CHR ''0'')])"
    by (simp add: newTarVFS_def ex_defs map_store_def HasSuffix_def suffix_def)
  have th: "\<forall>name \<in> fst ` set (t_entries (ex_tar [(''docs/a.txt'', CHR ''0''), (''top.txt'', CHR ''0'')])).
              \<not> HasPrefix name (''/home/u/a.tar'' @ ''/'')"
    by (simp add: ex_defs HasPrefix_def)
  have z: "newZipVFS ''/home/u/a.zip'' (Inr [ex_member ''docs/a.txt'', ex_member ''top.txt''])
           = Inr (ex_zip [''docs/a.txt'', ''top.txt''])"
    by (simp add: newZipVFS_def ex_defs)
  have zh: "\<forall>f \<in> set (zv_File (ex_zip [''docs/a.txt'', ''top.txt''])).
              \<not> HasPrefix (z_Name f) (''/home/u/a.zip'' @ ''/'')"
    by (simp add: ex_defs HasPrefix_def)
  from ReadDir_anchor_empty [where tanchor = "''/home/u/a.tar''"
      and tdisk = "ex_tar_disk [(''docs/a.txt'', CHR ''0''), (''top.txt'', CHR ''0'')]"
      and t = "ex_tar [(''docs/a.txt'', CHR ''0''), (''top.txt'', CHR ''0'')]"
      and zanchor = "''/home/u/a.zip''"
      and zdisk = "Inr [ex_member ''docs/a.txt'', ex_member ''top.txt'']"
      and z = "ex_zip [''docs/a.txt'', ''top.txt'']"] t th z zh
  show ?thesis by blast
qed





text \<open>
  C3 at a failing input. A zip container whose only record is \<^verbatim>\<open>sub/d/x\<close> lists
  \<^verbatim>\<open>sub\<close> as one directory entry \<^verbatim>\<open>d\<close>, and \<^verbatim>\<open>Stat\<close> knows no path of that
  directory: the flag of the entry has no \<^verbatim>\<open>Stat\<close> result to agree with. A tar index
  with the key \<^verbatim>\<open>sub/\<close> lists \<^verbatim>\<open>sub\<close> as holding an entry \<^verbatim>\<open>sub\<close>, the directory
  itself.
\<close>

theorem ReadDir_Stat_disagree:
  "zipVFS_ReadDir (ex_zip [''sub/d/x'']) ''sub'' = Inr [\<lparr>ze_f = synthDir ''d'', ze_isDir = True\<rparr>]
   \<and> zipDirEntry_Name \<lparr>ze_f = synthDir ''d'', ze_isDir = True\<rparr> = ''d''
   \<and> zipDirEntry_IsDir \<lparr>ze_f = synthDir ''d'', ze_isDir = True\<rparr> = True
   \<and> zipVFS_Stat (ex_zip [''sub/d/x'']) ''sub/d'' = Inl ErrNotExist
   \<and> zipVFS_Stat (ex_zip [''sub/d/x'']) ''sub/d/'' = Inl ErrNotExist
   \<and> zipVFS_Stat (ex_zip [''sub/d/x'']) ''d'' = Inl ErrNotExist
   \<and> zipVFS_Stat (ex_zip [''sub/d/x'']) (Join ''sub'' ''d'') = Inl ErrNotExist
   \<and> zipVFS_Stat (ex_zip [''sub/d/x'']) (Join ''/home/u/a.zip/sub'' ''d'') = Inl ErrNotExist
   \<and> tarVFS_ReadDir (ex_tar [(''sub/'', TypeDir)]) ''sub''
       = Inr [\<lparr>te_name = ''sub'', te_hdr = ex_header ''sub/'' TypeDir\<rparr>]"
  by (simp add: zipVFS_ReadDir_def tarVFS_ReadDir_def zipVFS_Stat_def zipDirEntry_Name_def
      zipDirEntry_IsDir_def synthDir_def ex_defs list_defs zip_ReadDir_loop.simps
      Join_def Clean_def cleanStep_def Base_def)

section \<open>Properties of the transfer engine\<close>

lemmas path_defs = Join_def Clean_def cleanStep_def Base_def

lemmas ex_model_defs = ex_model_def world_of_def selection_def

text \<open>None of the three batch functions changes a panel of the model.\<close>

lemma moveWithProgress_panels: "panels (fst (moveWithProgress m w args)) = panels m"
  by (simp add: moveWithProgress_def Let_def split: prod.splits option.splits)

lemma deleteWithProgress_panels: "panels (fst (deleteWithProgress m w)) = panels m"
  by (simp add: deleteWithProgress_def Let_def split: prod.splits)

lemma copyWithProgress_panels:
  "copyWithProgress sched m w args = Some (m', w') \<Longrightarrow> panels m' = panels m"
  by (auto simp: copyWithProgress_def Let_def split: prod.splits option.splits)

text \<open>
  C1 at a failing input. The active panel has selected \<^verbatim>\<open>/home/u/gone.txt\<close>, which
  does not exist. The move batch sends the error as its one result and returns; the
  selection of the panel is what it was, not empty. A move, a delete and a copy batch
  that succeed leave the selection in place as well.
\<close>

theorem move_fails_selection_stays:
  "moveWithProgress (ex_model ''/home/u'' [(''/home/u/gone.txt'', True)] LocalVFS)
       (world_of [(''/home/u/dst'', Directory)]) [''mv'']
     = ((ex_model ''/home/u'' [(''/home/u/gone.txt'', True)] LocalVFS)
          \<lparr>sent := [CommandResult [] (Some ErrNotExist)]\<rparr>,
        world_of [(''/home/u/dst'', Directory)])
   \<and> selection (fst (moveWithProgress (ex_model ''/home/u'' [(''/home/u/gone.txt'', True)] LocalVFS)
        (world_of [(''/home/u/dst'', Directory)]) [''mv'']))
     = [(''/home/u/gone.txt'', True)]
   \<and> selection (fst (moveWithProgress (ex_model ''/home/u'' [(''/home/u/a.txt'', True)] LocalVFS)
        (world_of [(''/home/u/a.txt'', RegFile ''abc''), (''/home/u/dst'', Directory)]) [''mv'']))
     = [(''/home/u/a.txt'', True)]
   \<and> sent (fst (moveWithProgress (ex_model ''/home/u'' [(''/home/u/a.txt'', True)] LocalVFS)
        (world_of [(''/home/u/a.txt'', RegFile ''abc''), (''/home/u/dst'', Directory)]) [''mv'']))
     = [ProgressMsg (Fin 1), ProgressMsg (Fin 1), CommandResult ''Move completed'' None]
   \<and> selection (fst (deleteWithProgress (ex_model ''/home/u'' [(''/home/u/a.txt'', True)] LocalVFS)
        (world_of [(''/home/u/a.txt'', RegFile ''abc''), (''/home/u/dst'', Directory)])))
     = [(''/home/u/a.txt'', True)]
   \<and> sent (fst (deleteWithProgress (ex_model ''/home/u'' [(''/home/u/a.txt'', True)] LocalVFS)
        (world_of [(''/home/u/a.txt'', RegFile ''abc''), (''/home/u/dst'', Directory)])))
     = [ProgressMsg (Fin 1), CommandResult ''Delete completed'' None]
   \<and> map_option (selection \<circ> fst)
       (copyWithProgress [0] (ex_model ''/home/u'' [(''/home/u/a.txt'', True)] LocalVFS)
          (world_of [(''/home/u/a.txt'', RegFile ''abc''), (''/home/u/dst'', Directory)]) [''cp''])
     = Some [(''/home/u/a.txt'', True)]
   \<and> map_option (sent \<circ> fst)
       (copyWithProgress [0] (ex_model ''/home/u'' [(''/home/u/a.txt'', True)] LocalVFS)
          (world_of [(''/home/u/a.txt'', RegFile ''abc''), (''/home/u/dst'', Directory)]) [''cp''])
     = Some [ProgressMsg (Fin 1), ProgressMsg (Fin 1), CommandResult ''Copy completed'' None]"
  by (simp add: moveWithProgress_def deleteWithProgress_def batch_sources_def selected_def
      ex_model_defs os_Rename_def os_RemoveAll_def path_defs f_of_int_def enumerate_eq_zip
      Let_def HasPrefix_def copyWithProgress_def scheduled_def copy_job_def copyFileVFS_def
      vfs_Open_def os_Open_def os_Create_def os_Write_def overall_def chunkReads_def
      copy_loop.simps)

lemma with_vfs_activePanel [simp]: "activePanel (with_vfs m v) = activePanel m"
  by (simp add: with_vfs_def)

lemma with_vfs_sent [simp]: "sent (with_vfs m v) = sent m"
  by (simp add: with_vfs_def)

lemma with_vfs_currentDir [simp]:
  "currentDir (panels (with_vfs m v) ! i) = currentDir (panels m ! i)"
  by (cases "activePanel m < length (panels m)"; cases "i = activePanel m")
     (simp_all add: with_vfs_def list_update_beyond not_less)

lemma with_vfs_selectedFiles [simp]:
  "selectedFiles (panels (with_vfs m v) ! i) = selectedFiles (panels m ! i)"
  by (cases "activePanel m < length (panels m)"; cases "i = activePanel m")
     (simp_all add: with_vfs_def list_update_beyond not_less)

lemma batch_sources_with_vfs [simp]:
  "batch_sources (panels (with_vfs m v) ! i) dst args = batch_sources (panels m ! i) dst args"
  by (simp add: batch_sources_def Let_def cong: if_cong)







lemmas copy_defs = copyWithProgress_def batch_sources_def selected_def scheduled_def copy_job_def
  copyFileVFS_def vfs_Open_def os_Open_def os_Create_def os_Write_def overall_def f_of_int_def
  chunkReads_def

text \<open>
  C6 at a failing input. The active panel is bound to a remote session and has selected
  \<^verbatim>\<open>/proc/version\<close>, a file that reports the size 0 and delivers five bytes. The copy
  batch sends the progress value \<open>5 / 0\<close>, which is infinite, before the final 1.
\<close>

theorem copy_progress_out_of_range:
  "map_option (sent \<circ> fst)
     (copyWithProgress [0] (ex_model ''/proc'' [(''/proc/version'', True)] (SftpVFS ex_client))
        (world_of [(''/home/u/dst'', Directory)]) [''cp''])
     = Some [ProgressMsg PosInf, ProgressMsg (Fin 1), CommandResult ''Copy completed'' None]
   \<and> \<not> in_unit PosInf"
  by (simp add: copy_defs ex_model_defs ex_client_def ex_remote_file_def path_defs Let_def
      copy_loop.simps in_unit_def)

subsection \<open>The copy loop\<close>





subsection \<open>Streams end\<close>

lemma chunkReads_ends: "ends_loop (chunkReads content fin (length content))"
  by (simp add: chunkReads_def ends_loop_def)

lemma chunk_stream_ends [simp]: "stream_ends \<lparr>f_Stat = st, f_Read = chunkReads content fin\<rparr>"
  unfolding stream_ends_def using chunkReads_ends [of content fin] by auto





subsection \<open>Every batch returns with one result\<close>




lemma results_append [simp]: "results (xs @ ys) = results xs @ results ys"
  by (simp add: results_def)

lemma results_Cons [simp]:
  "results (ProgressMsg x # ms) = results ms"
  "results (CommandResult output err # ms) = CommandResult output err # results ms"
  "results [] = []"
  by (simp_all add: results_def)

lemma results_map_Progress [simp]: "results (map (\<lambda>x. ProgressMsg (f x)) xs) = []"
  by (induction xs) simp_all










subsection \<open>The progress of a copy batch\<close>







subsection \<open>The outcome of a copy batch\<close>





subsection \<open>Copies between local files\<close>

lemma take_chunk_empty:
  "take 4096 (drop (4096 * k) c) = [] \<longleftrightarrow> length c \<le> 4096 * k"
  by auto











end
